theory Spec2Isabelle
  imports Complex_Main "HOL-Library.Multiset"
begin

section \<open>Strings and numbers of the host language\<close>

text \<open>
  A string of the program is a sequence of UTF-16 code units, and \<open>.length\<close> counts
  them. The model is a list of code units, each a natural number; \<open>js\<close> turns a
  literal of Basic Latin characters into such a list.

  The sequence token is a number of the program holding an integer: a double whose
  value is an integer. The model uses \<^typ>\<open>int\<close> for the value, and the sum of two
  such numbers is \<open>addNumber\<close>: the exact sum rounded to the nearest double, ties to
  the even significand, as the addition of the language does (for sums below
  \<open>2^1024\<close>). Up to \<open>2^53\<close> in magnitude every integer is a double and the sum is
  exact. \<open>Date.now()\<close> is a time value: an integer of magnitude at most 8.64e15.
\<close>

type_synonym jstring = "nat list"

definition js :: "string \<Rightarrow> jstring" where
  "js s = map of_char s"

definition isWhiteSpace :: "nat \<Rightarrow> bool" where
  \<comment> \<open>WhiteSpace and LineTerminator of the language: what \<open>trim\<close>, \<open>parseInt\<close> and the
      pattern \<open>\s\<close> skip.\<close>
  "isWhiteSpace c =
     (c \<in> {9, 10, 11, 12, 13, 32, 160, 5760, 8232, 8233, 8239, 8287, 12288, 65279}
      \<or> (8192 \<le> c \<and> c \<le> 8202))"

definition trim :: "jstring \<Rightarrow> jstring" where
  \<comment> \<open>\<open>String.prototype.trim\<close>\<close>
  "trim s = rev (dropWhile isWhiteSpace (rev (dropWhile isWhiteSpace s)))"

definition isDigit :: "nat \<Rightarrow> bool" where
  "isDigit c = (48 \<le> c \<and> c \<le> 57)"

definition digitValue :: "nat \<Rightarrow> nat" where
  "digitValue c = c - 48"

definition digitChar :: "nat \<Rightarrow> nat" where
  "digitChar d = 48 + d"

fun natToString :: "nat \<Rightarrow> jstring" where
  "natToString n = (if n < 10 then [digitChar n] else natToString (n div 10) @ [digitChar (n mod 10)])"

declare natToString.simps [simp del]

definition intToString :: "int \<Rightarrow> jstring" where
  \<comment> \<open>\<open>String(n)\<close> for an integer \<open>n\<close>; 45 is the minus sign.\<close>
  "intToString i = (if i < 0 then 45 # natToString (nat (- i)) else natToString (nat i))"

fun bitLength :: "nat \<Rightarrow> nat" where
  "bitLength n = (if n = 0 then 0 else Suc (bitLength (n div 2)))"

declare bitLength.simps [simp del]

definition roundNat :: "nat \<Rightarrow> nat" where
  \<comment> \<open>The double nearest to a natural number: 53 bits of significand are kept.\<close>
  "roundNat x =
     (if x \<le> 2 ^ 53 then x
      else
        (let e = bitLength x - 53;
             ulp = 2 ^ e;
             q = x div ulp;
             r = x mod ulp
         in if 2 * r < ulp \<or> (2 * r = ulp \<and> even q) then q * ulp else (q + 1) * ulp))"

definition roundToDouble :: "int \<Rightarrow> int" where
  "roundToDouble i = (if i < 0 then - int (roundNat (nat (- i))) else int (roundNat (nat i)))"

definition addNumber :: "int \<Rightarrow> int \<Rightarrow> int" where
  \<comment> \<open>\<open>a + b\<close> of the language, on numbers that hold integers\<close>
  "addNumber a b = roundToDouble (a + b)"

definition isTimeValue :: "int \<Rightarrow> bool" where
  \<comment> \<open>What \<open>Date.now()\<close> can return\<close>
  "isTimeValue t = (\<bar>t\<bar> \<le> 8640000000000000)"

definition digitsValue :: "jstring \<Rightarrow> nat" where
  "digitsValue ds = foldl (\<lambda>a c. 10 * a + digitValue c) 0 ds"

definition parseInt :: "jstring \<Rightarrow> int option" where
  \<comment> \<open>\<open>parseInt(s, 10)\<close>: leading white space is skipped, then an optional sign
      (45 is \<open>-\<close>, 43 is \<open>+\<close>), then the longest run of decimal digits; \<open>None\<close> is
      \<open>NaN\<close> (no digit there).\<close>
  "parseInt s =
     (let s1 = dropWhile isWhiteSpace s;
          neg = (s1 \<noteq> [] \<and> hd s1 = 45);
          s2 = (if s1 \<noteq> [] \<and> (hd s1 = 45 \<or> hd s1 = 43) then tl s1 else s1);
          ds = takeWhile isDigit s2
      in if ds = [] then None
         else Some (if neg then - int (digitsValue ds) else int (digitsValue ds)))"

section \<open>NonceManager (lib/nonce.js)\<close>

text \<open>
  The state of one \<open>NonceManager\<close> together with the one file it reads and writes:
  \<open>nvalue\<close> is \<open>this._value\<close> (\<open>None\<close> is \<open>null\<close>), \<open>nfile\<close> is the text of the
  file at \<open>filePath\<close> (\<open>None\<close> when \<open>readFileSync\<close> throws: no file), and
  \<open>nwritable\<close> says whether \<open>writeFileSync\<close> succeeds. The clock \<open>Date.now()\<close>
  is the argument \<open>now\<close>.
\<close>

record nonce_manager =
  nvalue :: "int option"
  nfile :: "jstring option"
  nwritable :: bool

definition load :: "int \<Rightarrow> nonce_manager \<Rightarrow> int \<times> nonce_manager" where
  "load now m =
     (case nvalue m of
        Some v \<Rightarrow> (v, m)
      | None \<Rightarrow>
          (let v = (case nfile m of
                      None \<Rightarrow> now
                    | Some raw \<Rightarrow>
                        (case parseInt (trim raw) of
                           None \<Rightarrow> now
                         | Some n \<Rightarrow> if n = 0 then now else n))
           in (v, m\<lparr>nvalue := Some v\<rparr>)))"

definition save :: "nonce_manager \<Rightarrow> nonce_manager" where
  \<comment> \<open>\<open>_save\<close>: a failed write is caught and ignored. It is only called with a value set.\<close>
  "save m =
     (case nvalue m of
        None \<Rightarrow> (if nwritable m then m\<lparr>nfile := Some (js ''null'')\<rparr> else m)
      | Some v \<Rightarrow> (if nwritable m then m\<lparr>nfile := Some (intToString v)\<rparr> else m))"

definition next_nonce :: "int \<Rightarrow> nonce_manager \<Rightarrow> int \<times> nonce_manager" where
  \<comment> \<open>\<open>next()\<close>\<close>
  "next_nonce now m =
     (let (current, m1) = load now m;
          m2 = save (m1\<lparr>nvalue := Some (addNumber current 1)\<rparr>)
      in (addNumber current 1, m2))"

definition set_nonce :: "int \<Rightarrow> nonce_manager \<Rightarrow> nonce_manager" where
  \<comment> \<open>\<open>set(value)\<close>\<close>
  "set_nonce v m = save (m\<lparr>nvalue := Some v\<rparr>)"

section \<open>Commentary (lib/commentary.js)\<close>

definition MIN_LENGTH :: nat where
  "MIN_LENGTH = 20"

definition MAX_LENGTH :: nat where
  "MAX_LENGTH = 500"


record validation =
  valid :: bool
  error :: "jstring option"

definition requiredMessage :: jstring where
  \<comment> \<open>The message of the first branch of \<open>validate\<close>: 10 is the line feed, 34 the
      double quote, 8212 the em dash.\<close>
  "requiredMessage =
     js ''Commentary is required (min '' @ natToString MIN_LENGTH @ js '' chars).'' @ [10, 10]
     @ js ''Good examples:'' @ [10]
     @ js ''  '' @ [34] @ js ''BTC testing $95k support with RSI at 28, expecting bounce to $97k'' @ [34, 10]
     @ js ''  '' @ [34] @ js ''ETH breaking out of consolidation, volume spike confirms momentum'' @ [34, 10, 10]
     @ js ''Bad examples (rejected):'' @ [10]
     @ js ''  '' @ [34] @ js ''bullish'' @ [34] @ js '' '' @ [8212] @ js '' too short/vague'' @ [10]
     @ js ''  '' @ [34] @ js ''going up'' @ [34] @ js '' '' @ [8212] @ js '' no reasoning''"

definition tooShortMessage :: "nat \<Rightarrow> jstring" where
  "tooShortMessage n =
     js ''Commentary too short ('' @ natToString n @ js '' chars, min '' @ natToString MIN_LENGTH
     @ js ''). Add more detail about WHY.''"

definition validate :: "jstring \<Rightarrow> validation" where
  "validate commentary =
     (if commentary = [] \<or> trim commentary = []
      then \<lparr>valid = False, error = Some requiredMessage\<rparr>
      else
        (let trimmed = trim commentary
         in if length trimmed < MIN_LENGTH
            then \<lparr>valid = False, error = Some (tooShortMessage (length trimmed))\<rparr>
            else \<lparr>valid = True, error = None\<rparr>))"

subsection \<open>renderTemplate\<close>

text \<open>
  A value of the context object: absent or \<open>undefined\<close>, \<open>null\<close>, an integer number, or
  a string. The context is the map from property names to values.
\<close>

datatype jsval = JUndefined | JNull | JNum int | JStr jstring

type_synonym template_context = "string \<rightharpoonup> jsval"

definition getProp :: "template_context \<Rightarrow> string \<Rightarrow> jsval" where
  "getProp ctx k = (case ctx k of None \<Rightarrow> JUndefined | Some v \<Rightarrow> v)"

fun truthy :: "jsval \<Rightarrow> bool" where
  "truthy JUndefined = False"
| "truthy JNull = False"
| "truthy (JNum n) = (n \<noteq> 0)"
| "truthy (JStr s) = (s \<noteq> [])"

fun toString :: "jsval \<Rightarrow> jstring" where
  "toString JUndefined = js ''undefined''"
| "toString JNull = js ''null''"
| "toString (JNum n) = intToString n"
| "toString (JStr s) = s"

definition orQuestion :: "jsval \<Rightarrow> jstring" where
  \<comment> \<open>\<open>v || '?'\<close>, as the replacement text that \<open>replace\<close> makes of it\<close>
  "orQuestion v = toString (if truthy v then v else JStr (js ''?''))"

text \<open>
  \<open>String.prototype.replace\<close> with a global pattern that matches one fixed non-empty
  text and has no capture group, and a replacement that is not a function. In the
  replacement, \<open>$$\<close> stands for \<open>$\<close>, \<open>$&\<close> for the matched text, \<open>$`\<close> for the text preceding
  the match and \<open>$'\<close> for the text following it; every other character, a \<open>$\<close> preceding a
  digit included, stands for itself. The code units are 36 \<open>$\<close>, 38 \<open>&\<close>, 96 the
  backquote and 39 the quote.
\<close>

fun getSubstitution :: "jstring \<Rightarrow> jstring \<Rightarrow> jstring \<Rightarrow> jstring \<Rightarrow> jstring" where
  "getSubstitution matched preceding following [] = []"
| "getSubstitution matched preceding following [c] = [c]"
| "getSubstitution matched preceding following (c # d # r) =
     (if c = 36 \<and> d = 36 then 36 # getSubstitution matched preceding following r
      else if c = 36 \<and> d = 38 then matched @ getSubstitution matched preceding following r
      else if c = 36 \<and> d = 96 then preceding @ getSubstitution matched preceding following r
      else if c = 36 \<and> d = 39 then following @ getSubstitution matched preceding following r
      else c # getSubstitution matched preceding following (d # r))"

function replaceFrom :: "jstring \<Rightarrow> jstring \<Rightarrow> jstring \<Rightarrow> jstring \<Rightarrow> jstring" where
  "replaceFrom pat rep preceding [] = []"
| "replaceFrom pat rep preceding (c # cs) =
     (if pat \<noteq> [] \<and> take (length pat) (c # cs) = pat
      then getSubstitution pat preceding (drop (length pat) (c # cs)) rep
           @ replaceFrom pat rep (preceding @ pat) (drop (length pat) (c # cs))
      else c # replaceFrom pat rep (preceding @ [c]) cs)"
  by pat_completeness auto
termination
  by (relation "measure (\<lambda>(pat, rep, preceding, s). length s)") auto

declare replaceFrom.simps [simp del]

definition replaceAll :: "jstring \<Rightarrow> jstring \<Rightarrow> jstring \<Rightarrow> jstring" where
  \<comment> \<open>\<open>s.replace(/pat/g, rep)\<close>\<close>
  "replaceAll pat rep s = replaceFrom pat rep [] s"

definition renderTemplate :: "jstring \<Rightarrow> template_context \<Rightarrow> jstring" where
  "renderTemplate template ctx =
     (if template = [] then []
      else take MAX_LENGTH
        (replaceAll (js ''{strategy}'') (orQuestion (getProp ctx ''strategy''))
        (replaceAll (js ''{gridLevel}'') (orQuestion (getProp ctx ''gridLevel''))
        (replaceAll (js ''{odds}'') (orQuestion (getProp ctx ''odds''))
        (replaceAll (js ''{asset}'') (orQuestion (getProp ctx ''asset''))
        (replaceAll (js ''{price}'') (orQuestion (getProp ctx ''price''))
        (replaceAll (js ''{round}'') (orQuestion (getProp ctx ''round'')) template)))))))"

subsection \<open>qualityScore\<close>










section \<open>Strategies (lib/strategy.js)\<close>

text \<open>
  A grid as the remote side publishes it: the numeric fields are decimal strings.
\<close>

record grid =
  gridId :: jstring
  gridIdStr :: jstring
  strikePriceMin :: jstring
  strikePriceMax :: jstring
  odds :: jstring
  impliedProbability :: jstring
  expiryAt :: int

text \<open>
  The strategies compare floating-point numbers. A number is \<open>NaN\<close> or a value of a
  linearly ordered type \<open>'a\<close> (the doubles other than \<open>NaN\<close>, under their order), and the
  floating-point operations the strategies call are the fields of an \<open>fpu\<close>, an
  argument of each strategy: \<open>parseFloat\<close>, the subtraction, the product,
  \<open>Math.abs\<close> and the constant \<open>0.5\<close>. What is proved of a strategy holds for
  every \<open>fpu\<close>, so for the arithmetic of the host too.
\<close>

datatype 'a number = NaN | Num 'a

record 'a fpu =
  fp_parseFloat :: "jstring \<Rightarrow> 'a number"
  fp_minus :: "'a number \<Rightarrow> 'a number \<Rightarrow> 'a number"
  fp_times :: "'a number \<Rightarrow> 'a number \<Rightarrow> 'a number"
  fp_abs :: "'a number \<Rightarrow> 'a number"
  fp_half :: "'a number"

fun lessNumber :: "'a::linorder number \<Rightarrow> 'a number \<Rightarrow> bool" where
  \<comment> \<open>\<open>x < y\<close> of the language: false when either side is \<open>NaN\<close>\<close>
  "lessNumber (Num a) (Num b) = (a < b)"
| "lessNumber _ _ = False"

fun lessEqNumber :: "'a::linorder number \<Rightarrow> 'a number \<Rightarrow> bool" where
  \<comment> \<open>\<open>x <= y\<close> of the language\<close>
  "lessEqNumber (Num a) (Num b) = (a \<le> b)"
| "lessEqNumber _ _ = False"

definition greaterNumber :: "'a::linorder number \<Rightarrow> 'a number \<Rightarrow> bool" where
  \<comment> \<open>\<open>x > y\<close>\<close>
  "greaterNumber x y = lessNumber y x"

definition reduce :: "('b \<Rightarrow> 'a \<Rightarrow> 'b) \<Rightarrow> 'b option \<Rightarrow> 'a list \<Rightarrow> 'b option" where
  \<comment> \<open>\<open>xs.reduce(f, init)\<close> where \<open>init\<close> is \<open>xs[0]\<close>: \<open>None\<close> is \<open>undefined\<close>, which is
      what \<open>xs[0]\<close> is for the empty array, and the callback is then never called.\<close>
  "reduce f init xs = (case init of None \<Rightarrow> None | Some b \<Rightarrow> Some (foldl f b xs))"

definition first :: "'a list \<Rightarrow> 'a option" where
  \<comment> \<open>\<open>xs[0]\<close>\<close>
  "first xs = (case xs of [] \<Rightarrow> None | x # _ \<Rightarrow> Some x)"

definition balanced :: "'a::linorder fpu \<Rightarrow> grid list \<Rightarrow> grid option" where
  "balanced fp grids =
     reduce (\<lambda>best g.
        let diff = fp_abs fp (fp_minus fp (fp_parseFloat fp (impliedProbability g)) (fp_half fp));
            bestDiff =
              fp_abs fp (fp_minus fp (fp_parseFloat fp (impliedProbability best)) (fp_half fp))
        in if lessNumber diff bestDiff then g else best) (first grids) grids"

definition underdog :: "'a::linorder fpu \<Rightarrow> grid list \<Rightarrow> grid option" where
  "underdog fp grids =
     reduce (\<lambda>best g.
        if greaterNumber (fp_parseFloat fp (odds g)) (fp_parseFloat fp (odds best))
        then g else best)
       (first grids) grids"

definition value_strategy :: "'a::linorder fpu \<Rightarrow> grid list \<Rightarrow> grid option" where
  \<comment> \<open>\<open>value\<close>\<close>
  "value_strategy fp grids =
     reduce (\<lambda>best g.
        let ev = fp_times fp (fp_parseFloat fp (odds g)) (fp_parseFloat fp (impliedProbability g));
            bestEv =
              fp_times fp (fp_parseFloat fp (odds best)) (fp_parseFloat fp (impliedProbability best))
        in if greaterNumber ev bestEv then g else best) (first grids) grids"

subsection \<open>An exact decimal arithmetic\<close>

text \<open>
  One \<open>fpu\<close> to run the strategies on examples: the numbers are rationals,
  \<open>plainDecimal\<close> reads a decimal literal without exponent (optional sign, digits,
  optional fraction; 46 is the point) as the rational it denotes, and the operations
  are exact.
\<close>

definition plainDecimal :: "jstring \<Rightarrow> rat number" where
  "plainDecimal s =
     (let s1 = dropWhile isWhiteSpace s;
          neg = (s1 \<noteq> [] \<and> hd s1 = 45);
          s2 = (if s1 \<noteq> [] \<and> (hd s1 = 45 \<or> hd s1 = 43) then tl s1 else s1);
          ip = takeWhile isDigit s2;
          s3 = dropWhile isDigit s2;
          fr = (if s3 \<noteq> [] \<and> hd s3 = 46 then takeWhile isDigit (tl s3) else []);
          m = of_nat (digitsValue (ip @ fr)) / 10 ^ length fr
      in if ip = [] \<and> fr = [] then NaN else Num (if neg then - m else m))"

fun liftNumber :: "('a \<Rightarrow> 'a \<Rightarrow> 'a) \<Rightarrow> 'a number \<Rightarrow> 'a number \<Rightarrow> 'a number" where
  "liftNumber f (Num a) (Num b) = Num (f a b)"
| "liftNumber f _ _ = NaN"

fun absNumber :: "rat number \<Rightarrow> rat number" where
  "absNumber (Num a) = Num \<bar>a\<bar>"
| "absNumber NaN = NaN"

definition exactDecimal :: "rat fpu" where
  "exactDecimal =
     \<lparr>fp_parseFloat = plainDecimal,
      fp_minus = liftNumber (\<lambda>a b. a - b),
      fp_times = liftNumber (\<lambda>a b. a * b),
      fp_abs = absNumber,
      fp_half = Num (1 / 2)\<rparr>"

section \<open>PredictMeAgent.placeBet (lib/api.js)\<close>

text \<open>
  An error of the program: its message, and what \<open>request\<close> attaches to a rejection
  with a status of 400 or more, the status and the \<open>expectedNonce\<close> of the parsed
  body, an integer (\<open>None\<close> when there is no body, or no such field, or the field is
  \<open>null\<close>).
\<close>

record js_error =
  message :: jstring
  statusCode :: "nat option"
  expectedNonce :: "int option"

definition newError :: "jstring \<Rightarrow> js_error" where
  \<comment> \<open>\<open>new Error(msg)\<close>\<close>
  "newError msg = \<lparr>message = msg, statusCode = None, expectedNonce = None\<rparr>"

record bet_params =
  p_gridId :: jstring
  p_amount :: jstring
  p_balanceType :: "jstring option"
  p_commentary :: jstring
  p_strategy :: "jstring option"

record bet_body =
  b_gridId :: jstring
  b_amount :: jstring
  b_balanceType :: jstring
  b_nonce :: int
  b_commentary :: jstring
  b_strategy :: "jstring option"

text \<open>
  The agent: its key, its nonce manager, and the bodies it has posted to \<open>/bet\<close> so
  far, oldest first. The remote side is a function that answers a body given the
  bodies posted before it, with a response (of any type \<open>'r\<close>) or a rejection.
\<close>

record agent =
  apiKey :: "jstring option"
  nonceManager :: nonce_manager
  posted :: "bet_body list"

type_synonym 'r remote = "bet_body list \<Rightarrow> bet_body \<Rightarrow> js_error + 'r"

definition post_bet :: "'r remote \<Rightarrow> agent \<Rightarrow> bet_body \<Rightarrow> (js_error + 'r) \<times> agent" where
  \<comment> \<open>\<open>this._post('/bet', body, true)\<close>: \<open>_auth\<close> throws before anything is sent when
      there is no key.\<close>
  "post_bet remote a body =
     (if apiKey a = None \<or> apiKey a = Some []
      then (Inl (newError (js ''API key required. Set PREDICTME_API_KEY in .env'')), a)
      else (remote (posted a) body, a\<lparr>posted := posted a @ [body]\<rparr>))"

definition balanceTypeOf :: "bet_params \<Rightarrow> jstring" where
  \<comment> \<open>The parameter \<open>balanceType = 'TEST'\<close>: the default stands in for \<open>undefined\<close>.\<close>
  "balanceTypeOf p = (case p_balanceType p of None \<Rightarrow> js ''TEST'' | Some b \<Rightarrow> b)"

definition betBody :: "bet_params \<Rightarrow> int \<Rightarrow> bet_body" where
  \<comment> \<open>The \<open>body\<close> of \<open>placeBet\<close> with the given nonce; \<open>strategy\<close> is set only when it
      is truthy.\<close>
  "betBody p nonce =
     \<lparr>b_gridId = p_gridId p,
      b_amount = p_amount p,
      b_balanceType = balanceTypeOf p,
      b_nonce = nonce,
      b_commentary = take 500 (p_commentary p),
      b_strategy = (case p_strategy p of
                      None \<Rightarrow> None
                    | Some st \<Rightarrow> if st = [] then None else Some st)\<rparr>"

definition placeBet :: "'r remote \<Rightarrow> int \<Rightarrow> bet_params \<Rightarrow> agent \<Rightarrow> (js_error + 'r) \<times> agent" where
  "placeBet remote now p a =
     (let v = validate (p_commentary p)
      in if \<not> valid v
         then (Inl (newError (case error v of None \<Rightarrow> [] | Some e \<Rightarrow> e)), a)
         else if balanceTypeOf p = js ''REAL''
         then (Inl (newError (js ''Agents cannot use REAL balance. Use TEST or BONUS.'')), a)
         else
           (let (nonce, m1) = next_nonce now (nonceManager a);
                a1 = a\<lparr>nonceManager := m1\<rparr>;
                body = betBody p nonce;
                (res, a2) = post_bet remote a1 body
            in case res of
                 Inr r \<Rightarrow> (Inr r, a2)
               | Inl err \<Rightarrow>
                   (case expectedNonce err of
                      Some e \<Rightarrow>
                        (let m2 = set_nonce e (nonceManager a2);
                             (nonce2, m3) = next_nonce now m2;
                             a3 = a2\<lparr>nonceManager := m3\<rparr>
                         in post_bet remote a3 (body\<lparr>b_nonce := nonce2\<rparr>))
                    | None \<Rightarrow> (Inl err, a2))))"

section \<open>Notions of the statements\<close>

subsection \<open>A number in a message\<close>

text \<open>
  A message includes a number when the decimal text of the number is one of the
  maximal runs of digits of the message: \<open>min 20 chars\<close> includes 20, and does not
  include 0 or 2.
\<close>

fun runsFrom :: "jstring \<Rightarrow> jstring \<Rightarrow> jstring list" where
  "runsFrom cur [] = (if cur = [] then [] else [cur])"
| "runsFrom cur (c # cs) =
     (if isDigit c then runsFrom (cur @ [c]) cs
      else (if cur = [] then [] else [cur]) @ runsFrom [] cs)"

definition digitRuns :: "jstring \<Rightarrow> jstring list" where
  "digitRuns s = runsFrom [] s"

definition mentionsNumber :: "jstring \<Rightarrow> nat \<Rightarrow> bool" where
  "mentionsNumber msg n = (natToString n \<in> set (digitRuns msg))"

subsection \<open>A template as a sequence of markers and plain text\<close>













section \<open>Sample inputs\<close>



definition sampleGrid :: "string \<Rightarrow> string \<Rightarrow> string \<Rightarrow> grid" where
  "sampleGrid name od pr =
     \<lparr>gridId = js name, gridIdStr = js name, strikePriceMin = js ''94000'',
      strikePriceMax = js ''95000'', odds = js od, impliedProbability = js pr,
      expiryAt = 1700000010000\<rparr>"

definition sampleGrids :: "grid list" where
  "sampleGrids =
     [sampleGrid ''BTC_1_0'' ''3.1'' ''0.30'',
      sampleGrid ''BTC_1_1'' ''2.1'' ''0.45'',
      sampleGrid ''BTC_1_2'' ''1.9'' ''0.55'',
      sampleGrid ''BTC_1_3'' ''3.1'' ''0.25'']"

definition sampleThree :: "grid list" where
  \<comment> \<open>The greatest odds are the first grid's, the greatest product of odds and implied
      probability (0.9, 1.05, 0.93) the second's, the greatest probability the third's.\<close>
  "sampleThree =
     [sampleGrid ''BTC_1_0'' ''3.0'' ''0.30'',
      sampleGrid ''BTC_1_1'' ''2.5'' ''0.42'',
      sampleGrid ''BTC_1_2'' ''1.5'' ''0.62'']"

definition sampleThreePermuted :: "grid list" where
  "sampleThreePermuted =
     [sampleGrid ''BTC_1_2'' ''1.5'' ''0.62'',
      sampleGrid ''BTC_1_0'' ''3.0'' ''0.30'',
      sampleGrid ''BTC_1_1'' ''2.5'' ''0.42'']"

definition unparsableGrid :: grid where
  \<comment> \<open>A grid whose odds and implied probability are no decimal strings\<close>
  "unparsableGrid = sampleGrid ''BTC_1_0'' ''abc'' []"

definition parsableGrid :: grid where
  "parsableGrid = sampleGrid ''BTC_1_1'' ''5'' ''0.5''"

definition sampleParams :: bet_params where
  "sampleParams =
     \<lparr>p_gridId = js ''BTC_1_1'', p_amount = js ''1.00'', p_balanceType = None,
      p_commentary = js ''BTC testing $95k support with RSI at 28, expecting bounce'',
      p_strategy = Some (js ''balanced'')\<rparr>"

definition sampleAgent :: agent where
  "sampleAgent =
     \<lparr>apiKey = Some (js ''pm_agent_sample''),
      nonceManager = \<lparr>nvalue = Some 7, nfile = Some (js ''7''), nwritable = False\<rparr>,
      posted = []\<rparr>"


definition conflictError :: "int \<Rightarrow> js_error" where
  "conflictError e = \<lparr>message = js ''Invalid nonce'', statusCode = Some 400, expectedNonce = Some e\<rparr>"


definition alwaysConflict :: "unit remote" where
  \<comment> \<open>A remote side that rejects every body: it expects 42 at the first and 50 after.\<close>
  "alwaysConflict history body = Inl (conflictError (if history = [] then 42 else 50))"

definition expecting :: "int \<Rightarrow> unit remote" where
  \<comment> \<open>A remote side that rejects every body and expects \<open>e\<close>.\<close>
  "expecting e history body = Inl (conflictError e)"


section \<open>Decimal text of integers\<close>

lemma digitChar_props:
  "d < 10 \<Longrightarrow> isDigit (digitChar d) \<and> digitValue (digitChar d) = d"
  by (simp add: isDigit_def digitChar_def digitValue_def)

lemma isDigit_not_ws: "isDigit c \<Longrightarrow> \<not> isWhiteSpace c"
  by (auto simp: isDigit_def isWhiteSpace_def)

lemma natToString_digits: "\<forall>c\<in>set (natToString n). isDigit c"
proof (induction n rule: natToString.induct)
  case (1 n)
  show ?case
  proof (cases "n < 10")
    case True
    then show ?thesis by (subst natToString.simps) (simp add: digitChar_props)
  next
    case False
    with 1 show ?thesis by (subst natToString.simps) (simp add: digitChar_props)
  qed
qed

lemma natToString_nonempty: "natToString n \<noteq> []"
  by (subst natToString.simps) simp

lemma digitsValue_snoc: "digitsValue (ds @ [c]) = 10 * digitsValue ds + digitValue c"
  by (simp add: digitsValue_def)

lemma digitsValue_natToString: "digitsValue (natToString n) = n"
proof (induction n rule: natToString.induct)
  case (1 n)
  show ?case
  proof (cases "n < 10")
    case True
    then show ?thesis by (subst natToString.simps) (simp add: digitsValue_def digitChar_props)
  next
    case False
    with 1 show ?thesis by (subst natToString.simps) (simp add: digitsValue_snoc digitChar_props)
  qed
qed

lemma dropWhile_self: "s = [] \<or> \<not> P (hd s) \<Longrightarrow> dropWhile P s = s"
  by (cases s) auto

lemma trim_id:
  assumes "s \<noteq> []" "\<not> isWhiteSpace (hd s)" "\<not> isWhiteSpace (last s)"
  shows "trim s = s"
proof -
  have a: "dropWhile isWhiteSpace s = s" using assms by (simp add: dropWhile_self)
  have "hd (rev s) = last s" using assms(1) by (simp add: hd_rev)
  then have b: "dropWhile isWhiteSpace (rev s) = rev s" using assms by (simp add: dropWhile_self)
  show ?thesis by (simp add: trim_def a b)
qed

lemma parseInt_digits:
  assumes "ds \<noteq> []" "\<forall>c\<in>set ds. isDigit c"
  shows "parseInt ds = Some (int (digitsValue ds))"
    and "parseInt (45 # ds) = Some (- int (digitsValue ds))"
proof -
  have hdd: "isDigit (hd ds)" using assms by auto
  have tw: "takeWhile isDigit ds = ds" using assms by simp
  have h1: "hd ds \<noteq> 45" "hd ds \<noteq> 43" using hdd by (auto simp: isDigit_def)
  have dw: "dropWhile isWhiteSpace ds = ds"
    using assms(1) hdd by (simp add: dropWhile_self isDigit_not_ws)
  have minus_ws: "\<not> isWhiteSpace 45" by (simp add: isWhiteSpace_def)
  show "parseInt ds = Some (int (digitsValue ds))"
    using assms(1) h1 by (simp add: parseInt_def Let_def tw dw del: takeWhile_eq_all_conv)
  show "parseInt (45 # ds) = Some (- int (digitsValue ds))"
    using assms(1) minus_ws by (simp add: parseInt_def Let_def tw del: takeWhile_eq_all_conv)
qed

lemma trim_digits:
  assumes "ds \<noteq> []" "\<forall>c\<in>set ds. isDigit c"
  shows "trim ds = ds" and "trim (45 # ds) = 45 # ds"
proof -
  have "isDigit (hd ds)" "isDigit (last ds)" using assms by auto
  then have nw: "\<not> isWhiteSpace (hd ds)" "\<not> isWhiteSpace (last ds)"
    by (auto simp: isDigit_not_ws)
  have minus_ws: "\<not> isWhiteSpace 45" by (simp add: isWhiteSpace_def)
  show "trim ds = ds" using assms(1) nw by (rule trim_id)
  show "trim (45 # ds) = 45 # ds"
    using assms(1) nw minus_ws by (intro trim_id) auto
qed

lemma parseInt_intToString: "parseInt (trim (intToString v)) = Some v"
proof (cases "v < 0")
  case True
  let ?ds = "natToString (nat (- v))"
  have s: "intToString v = 45 # ?ds" using True by (simp add: intToString_def)
  have "parseInt (trim (45 # ?ds)) = Some (- int (digitsValue ?ds))"
    by (simp add: trim_digits parseInt_digits natToString_nonempty natToString_digits)
  then show ?thesis using True by (simp add: s digitsValue_natToString)
next
  case False
  let ?ds = "natToString (nat v)"
  have s: "intToString v = ?ds" using False by (simp add: intToString_def)
  have "parseInt (trim ?ds) = Some (int (digitsValue ?ds))"
    by (simp add: trim_digits parseInt_digits natToString_nonempty natToString_digits)
  then show ?thesis using False by (simp add: s digitsValue_natToString)
qed

section \<open>Sums of numbers that hold integers\<close>

lemma roundToDouble_exact: "\<bar>x\<bar> \<le> 2 ^ 53 \<Longrightarrow> roundToDouble x = x"
  by (auto simp: roundToDouble_def roundNat_def nat_le_iff)

lemma addNumber_exact: "\<bar>a + b\<bar> \<le> 2 ^ 53 \<Longrightarrow> addNumber a b = a + b"
  by (simp add: addNumber_def roundToDouble_exact)

lemma addNumber_time:
  "isTimeValue t \<Longrightarrow> addNumber t 1 = t + 1 \<and> addNumber (t + 1) 1 = t + 2"
  by (simp add: isTimeValue_def addNumber_exact)




section \<open>The nonce manager: loading and advancing\<close>

lemma load_cached: "nvalue m = Some v \<Longrightarrow> load now m = (v, m)"
  by (simp add: load_def)

lemma save_value:
  "nvalue m = Some v \<Longrightarrow>
   save m = (if nwritable m then m\<lparr>nfile := Some (intToString v)\<rparr> else m)"
  by (simp add: save_def)

lemma next_nonce_cached:
  "nvalue m = Some v \<Longrightarrow>
   next_nonce now m =
     (addNumber v 1,
      m\<lparr>nvalue := Some (addNumber v 1),
        nfile := if nwritable m then Some (intToString (addNumber v 1)) else nfile m\<rparr>)"
  by (simp add: next_nonce_def load_def save_def)

lemma next_nonce_fresh:
  "nvalue m = None \<Longrightarrow> nfile m = None \<Longrightarrow>
   next_nonce now m =
     (addNumber now 1,
      m\<lparr>nvalue := Some (addNumber now 1),
        nfile := if nwritable m then Some (intToString (addNumber now 1)) else None\<rparr>)"
  by (simp add: next_nonce_def load_def save_def)



text \<open>
  The part of claim C2 that the program keeps. A manager that has not loaded yet, over
  a file whose trimmed text \<open>parseInt\<close> reads as an integer \<open>v\<close> other than zero,
  loads exactly \<open>v\<close>; this is so for the text \<open>String(v)\<close> that \<open>_save\<close> writes. With
  no file, and with a file in which \<open>parseInt\<close> finds no integer, it loads the clock
  \<open>Date.now()\<close>. In each case the loaded value is kept in \<open>_value\<close>.
\<close>

theorem load_returns_persisted:
  assumes "nvalue m = None"
  shows "(nfile m = Some raw \<and> parseInt (trim raw) = Some v \<and> v \<noteq> 0 \<longrightarrow>
            load now m = (v, m\<lparr>nvalue := Some v\<rparr>))
       \<and> (nfile m = Some (intToString v) \<and> v \<noteq> 0 \<longrightarrow> fst (load now m) = v)
       \<and> (nfile m = None \<or> (nfile m = Some raw \<and> parseInt (trim raw) = None) \<longrightarrow>
            load now m = (now, m\<lparr>nvalue := Some now\<rparr>))"
  using assms by (auto simp: load_def parseInt_intToString)

lemma eval_1699: "intToString 1699999999999 = js ''1699999999999''"
  by (simp add: intToString_def natToString.simps digitChar_def js_def)

text \<open>The theorem at a file holding 1699999999999, and at no file.\<close>

theorem load_returns_persisted_witness:
  "nvalue \<lparr>nvalue = None, nfile = Some (js ''1699999999999''), nwritable = True\<rparr> = None
   \<and> nfile \<lparr>nvalue = None, nfile = Some (js ''1699999999999''), nwritable = True\<rparr> = Some (intToString 1699999999999)
   \<and> (1699999999999 :: int) \<noteq> 0
   \<and> fst (load 1700000000000 \<lparr>nvalue = None, nfile = Some (js ''1699999999999''), nwritable = True\<rparr>) = 1699999999999
   \<and> nfile \<lparr>nvalue = None, nfile = None, nwritable = True\<rparr> = None
   \<and> load 1700000000000 \<lparr>nvalue = None, nfile = None, nwritable = True\<rparr>
       = (1700000000000, \<lparr>nvalue = Some 1700000000000, nfile = None, nwritable = True\<rparr>)"
  using load_returns_persisted [of "\<lparr>nvalue = None, nfile = Some (js ''1699999999999''), nwritable = True\<rparr>"
           "js ''1699999999999''" 1699999999999 1700000000000]
        load_returns_persisted [of "\<lparr>nvalue = None, nfile = None, nwritable = True\<rparr>" "[]" 0 1700000000000]
  by (simp add: eval_1699)

text \<open>
  Claim C2 at the integer zero. A manager that has not loaded yet, over a file that
  holds \<open>0\<close> (the text \<open>String(0)\<close>, as \<open>set(0)\<close> writes it), loads the clock and not
  the persisted 0: in \<open>parseInt(raw, 10) || Date.now()\<close> the number 0 is falsy. The same
  function returns a cached 0 as it is (\<open>_value != null\<close>).
\<close>

theorem load_file_zero:
  "set_nonce 0 \<lparr>nvalue = None, nfile = None, nwritable = True\<rparr>
     = \<lparr>nvalue = Some 0, nfile = Some (js ''0''), nwritable = True\<rparr>
 \<and> nfile \<lparr>nvalue = None, nfile = Some (js ''0''), nwritable = True\<rparr> = Some (intToString 0)
 \<and> load 1700000000000 \<lparr>nvalue = None, nfile = Some (js ''0''), nwritable = True\<rparr>
     = (1700000000000, \<lparr>nvalue = Some 1700000000000, nfile = Some (js ''0''), nwritable = True\<rparr>)
 \<and> load 1700000000000 \<lparr>nvalue = Some 0, nfile = Some (js ''0''), nwritable = True\<rparr>
     = (0, \<lparr>nvalue = Some 0, nfile = Some (js ''0''), nwritable = True\<rparr>)"
  by (simp add: load_def set_nonce_def save_def parseInt_def trim_def isWhiteSpace_def isDigit_def
      digitsValue_def digitValue_def intToString_def natToString.simps digitChar_def js_def)

text \<open>
  Claim C3. On a manager that has not loaded yet and has no file, the first \<open>next()\<close>
  returns \<open>seed + 1\<close> where \<open>seed\<close> is the clock at that call, a time value, and the
  second returns \<open>seed + 2\<close> whatever the clock is by then. Each call sets \<open>_value\<close> to
  what it returns and writes its decimal text to the file; where the write fails the
  file is left as it was and the call returns all the same.
\<close>

theorem next_twice_on_fresh_store:
  assumes "nvalue m = None" and "nfile m = None" and "isTimeValue now1"
  shows "next_nonce now1 m =
           (now1 + 1, m\<lparr>nvalue := Some (now1 + 1),
                        nfile := if nwritable m then Some (intToString (now1 + 1)) else None\<rparr>)
       \<and> next_nonce now2 (snd (next_nonce now1 m)) =
           (now1 + 2, m\<lparr>nvalue := Some (now1 + 2),
                        nfile := if nwritable m then Some (intToString (now1 + 2)) else None\<rparr>)"
proof -
  have a: "addNumber now1 1 = now1 + 1" "addNumber (now1 + 1) 1 = now1 + 2"
    using addNumber_time [OF assms(3)] by simp_all
  have first: "next_nonce now1 m =
           (now1 + 1, m\<lparr>nvalue := Some (now1 + 1),
                        nfile := if nwritable m then Some (intToString (now1 + 1)) else None\<rparr>)"
    using next_nonce_fresh [OF assms(1,2), of now1] by (simp add: a)
  show ?thesis
    unfolding first by (simp add: next_nonce_cached a)
qed

text \<open>The theorem at a store whose file cannot be written.\<close>

theorem next_twice_on_fresh_store_witness:
  "nvalue \<lparr>nvalue = None, nfile = None, nwritable = False\<rparr> = None
   \<and> nfile \<lparr>nvalue = None, nfile = None, nwritable = False\<rparr> = None
   \<and> isTimeValue 1700000000000
   \<and> fst (next_nonce 1700000000000 \<lparr>nvalue = None, nfile = None, nwritable = False\<rparr>) = 1700000000001
   \<and> next_nonce 1700000000777 (snd (next_nonce 1700000000000 \<lparr>nvalue = None, nfile = None, nwritable = False\<rparr>))
       = (1700000000002, \<lparr>nvalue = Some 1700000000002, nfile = None, nwritable = False\<rparr>)"
proof -
  let ?m = "\<lparr>nvalue = None, nfile = None, nwritable = False\<rparr>"
  have t: "isTimeValue 1700000000000" by (simp add: isTimeValue_def)
  have h: "nvalue ?m = None" "nfile ?m = None" by simp_all
  note both = next_twice_on_fresh_store [OF h t, of 1700000000777]
  have a: "next_nonce 1700000000000 ?m
             = (1700000000001, \<lparr>nvalue = Some 1700000000001, nfile = None, nwritable = False\<rparr>)"
    using both [THEN conjunct1] by simp
  have b: "next_nonce 1700000000777 (snd (next_nonce 1700000000000 ?m))
             = (1700000000002, \<lparr>nvalue = Some 1700000000002, nfile = None, nwritable = False\<rparr>)"
    using both [THEN conjunct2] by simp
  have "fst (next_nonce 1700000000000 ?m) = 1700000000001" by (simp only: a fst_conv)
  then show ?thesis using t b by simp
qed

section \<open>placeBet: the guards and the one retry\<close>

lemma set_nonce_value: "nvalue (set_nonce e m) = Some e"
  by (simp add: set_nonce_def save_def)



lemma post_bet_keyed:
  "apiKey a = Some k \<Longrightarrow> k \<noteq> [] \<Longrightarrow>
   post_bet remote a body = (remote (posted a) body, a\<lparr>posted := posted a @ [body]\<rparr>)"
  by (simp add: post_bet_def)

text \<open>
  Claim C4. When the balance type is \<open>REAL\<close>, \<open>placeBet\<close> ends in an error and leaves
  the agent as it was: the nonce manager has not been asked for a nonce, its file is
  untouched, and nothing has been posted. The error is a local one (it has no status),
  and for a valid commentary it is the error of the balance guard.
\<close>

theorem placeBet_rejects_real:
  assumes "balanceTypeOf p = js ''REAL''"
  shows "snd (placeBet remote now p a) = a
       \<and> (\<exists>err. fst (placeBet remote now p a) = Inl err \<and> statusCode err = None)
       \<and> (valid (validate (p_commentary p)) \<longrightarrow>
            fst (placeBet remote now p a)
              = Inl (newError (js ''Agents cannot use REAL balance. Use TEST or BONUS.'')))"
  using assms by (simp add: placeBet_def Let_def newError_def)


lemma sampleParams_ok:
  "valid (validate (p_commentary sampleParams))" "balanceTypeOf sampleParams \<noteq> js ''REAL''"
  by (simp_all add: sampleParams_def validate_def trim_def isWhiteSpace_def js_def MIN_LENGTH_def
      balanceTypeOf_def Let_def)

text \<open>The theorem on the sample submission with the balance type \<open>REAL\<close>.\<close>

theorem placeBet_rejects_real_witness:
  "balanceTypeOf (sampleParams\<lparr>p_balanceType := Some (js ''REAL'')\<rparr>) = js ''REAL''
 \<and> valid (validate (p_commentary (sampleParams\<lparr>p_balanceType := Some (js ''REAL'')\<rparr>)))
 \<and> placeBet alwaysConflict 1700000000000 (sampleParams\<lparr>p_balanceType := Some (js ''REAL'')\<rparr>) sampleAgent
     = (Inl (newError (js ''Agents cannot use REAL balance. Use TEST or BONUS.'')), sampleAgent)"
proof -
  let ?p = "sampleParams\<lparr>p_balanceType := Some (js ''REAL'')\<rparr>"
  have h: "balanceTypeOf ?p = js ''REAL''" by (simp add: balanceTypeOf_def)
  have v: "valid (validate (p_commentary ?p))" using sampleParams_ok(1) by simp
  from placeBet_rejects_real [OF h, of alwaysConflict 1700000000000 sampleAgent] v
  have "snd (placeBet alwaysConflict 1700000000000 ?p sampleAgent) = sampleAgent"
   and "fst (placeBet alwaysConflict 1700000000000 ?p sampleAgent)
          = Inl (newError (js ''Agents cannot use REAL balance. Use TEST or BONUS.''))"
    by blast+
  then show ?thesis using h v by (simp add: prod_eq_iff)
qed




section \<open>Reducing to the first best element\<close>

lemma foldl_first_best:
  fixes R :: "'g \<Rightarrow> 'g \<Rightarrow> bool"
  assumes sub: "set (b # xs) \<subseteq> S"
      and irrefl: "\<And>x. x \<in> S \<Longrightarrow> \<not> R x x"
      and trans: "\<And>x y z. \<lbrakk>x \<in> S; y \<in> S; z \<in> S; R x y; R y z\<rbrakk> \<Longrightarrow> R x z"
      and neg: "\<And>x y z. \<lbrakk>x \<in> S; y \<in> S; z \<in> S; R x y\<rbrakk> \<Longrightarrow> R x z \<or> R z y"
  shows "\<exists>i<length (b # xs).
           foldl (\<lambda>best g. if R g best then g else best) b xs = (b # xs) ! i
         \<and> (\<forall>x\<in>set (b # xs). \<not> R x ((b # xs) ! i))
         \<and> (\<forall>j<i. R ((b # xs) ! i) ((b # xs) ! j))"
  using sub
proof (induction xs rule: rev_induct)
  case Nil
  then show ?case using irrefl by auto
next
  case (snoc x xs)
  let ?f = "\<lambda>best g. if R g best then g else best"
  define l where "l = b # xs"
  have len: "length l = Suc (length xs)" by (simp add: l_def)
  from snoc obtain i where i: "i < length l" "foldl ?f b xs = l ! i"
    "\<forall>y\<in>set l. \<not> R y (l ! i)" "\<forall>j<i. R (l ! i) (l ! j)"
    unfolding l_def by auto
  have xS: "x \<in> S" and lS: "set l \<subseteq> S" using snoc.prems by (auto simp: l_def)
  have rS: "l ! i \<in> S" using i(1) lS by (meson nth_mem subsetD)
  have app: "b # xs @ [x] = l @ [x]" by (simp add: l_def)
  have old: "\<And>j. j < length l \<Longrightarrow> (l @ [x]) ! j = l ! j" by (simp add: nth_append)
  have new: "(l @ [x]) ! length l = x" by simp
  have step: "foldl ?f b (xs @ [x]) = (if R x (l ! i) then x else l ! i)" using i(2) by simp
  show ?case
  proof (cases "R x (l ! i)")
    case True
    have best: "\<forall>y\<in>set (l @ [x]). \<not> R y x"
    proof
      fix y assume y: "y \<in> set (l @ [x])"
      show "\<not> R y x"
      proof (cases "y = x")
        case True then show ?thesis using irrefl xS by simp
      next
        case False
        then have yl: "y \<in> set l" using y by auto
        then have "y \<in> S" using lS by auto
        moreover have "\<not> R y (l ! i)" using i(3) yl by blast
        ultimately show ?thesis using trans [of y x "l ! i"] True xS rS by blast
      qed
    qed
    have firstb: "\<forall>j<length l. R x ((l @ [x]) ! j)"
    proof (intro allI impI)
      fix j assume j: "j < length l"
      then have mem: "l ! j \<in> set l" by (meson nth_mem)
      then have "\<not> R (l ! j) (l ! i)" using i(3) by blast
      moreover have "l ! j \<in> S" using mem lS by auto
      ultimately have "R x (l ! j)" using neg [of x "l ! i" "l ! j"] True xS rS by blast
      then show "R x ((l @ [x]) ! j)" using j by (simp add: old)
    qed
    have "length l < length (l @ [x])" by simp
    then show ?thesis unfolding app using step True new best firstb by metis
  next
    case False
    have eq: "(l @ [x]) ! i = l ! i" using i(1) by (rule old)
    have best: "\<forall>y\<in>set (l @ [x]). \<not> R y (l ! i)" using i(3) False by auto
    have firstb: "\<forall>j<i. R (l ! i) ((l @ [x]) ! j)"
      using i(1,4) by (simp add: old)
    have "i < length (l @ [x])" using i(1) by simp
    then show ?thesis unfolding app using step False best firstb eq by metis
  qed
qed


lemma lessNumber_irrefl: "\<not> lessNumber x x"
  by (cases x) auto

lemma lessNumber_trans: "lessNumber x y \<Longrightarrow> lessNumber y z \<Longrightarrow> lessNumber x z"
  by (cases x; cases y; cases z) auto

lemma lessNumber_cases: "z \<noteq> NaN \<Longrightarrow> lessNumber x y \<Longrightarrow> lessNumber x z \<or> lessNumber z y"
  by (cases x; cases y; cases z) auto

lemma lessEqNumber_iff: "x \<noteq> NaN \<Longrightarrow> y \<noteq> NaN \<Longrightarrow> lessEqNumber x y \<longleftrightarrow> \<not> lessNumber y x"
  by (cases x; cases y) auto

lemma lessEqNumber_antisym: "lessEqNumber x y \<Longrightarrow> lessEqNumber y x \<Longrightarrow> x = y"
  by (cases x; cases y) auto

lemma reduce_first:
  assumes "grids \<noteq> []" and "\<And>g. f g g = g"
  shows "reduce f (first grids) grids = Some (foldl f (hd grids) (tl grids))"
  using assms by (cases grids) (simp_all add: reduce_def first_def)

lemma reduce_first_min:
  fixes k :: "'g \<Rightarrow> 'a::linorder number"
  assumes ne: "grids \<noteq> []" and nan: "\<forall>g\<in>set grids. k g \<noteq> NaN"
  shows "\<exists>i<length grids.
           reduce (\<lambda>best g. if lessNumber (k g) (k best) then g else best) (first grids) grids
             = Some (grids ! i)
         \<and> (\<forall>g\<in>set grids. lessEqNumber (k (grids ! i)) (k g))
         \<and> (\<forall>j<i. lessNumber (k (grids ! i)) (k (grids ! j)))"
proof -
  let ?R = "\<lambda>g best. lessNumber (k g) (k best)"
  let ?f = "\<lambda>best g. if ?R g best then g else best"
  obtain b xs where g: "grids = b # xs" using ne by (cases grids) auto
  have red: "reduce ?f (first grids) grids = Some (foldl ?f b xs)"
    using reduce_first [of grids ?f] ne by (simp add: g)
  have "\<exists>i<length (b # xs). foldl ?f b xs = (b # xs) ! i
         \<and> (\<forall>x\<in>set (b # xs). \<not> ?R x ((b # xs) ! i))
         \<and> (\<forall>j<i. ?R ((b # xs) ! i) ((b # xs) ! j))"
  proof (rule foldl_first_best [where S = "set grids"])
    show "set (b # xs) \<subseteq> set grids" by (simp add: g)
  next
    fix x assume "x \<in> set grids"
    show "\<not> ?R x x" by (rule lessNumber_irrefl)
  next
    fix x y z assume "x \<in> set grids" "y \<in> set grids" "z \<in> set grids" "?R x y" "?R y z"
    then show "?R x z" using lessNumber_trans by blast
  next
    fix x y z assume "x \<in> set grids" "y \<in> set grids" "z \<in> set grids" "?R x y"
    then show "?R x z \<or> ?R z y" using nan lessNumber_cases [of "k z" "k x" "k y"] by blast
  qed
  then obtain i where i: "i < length grids" "foldl ?f b xs = grids ! i"
    "\<forall>x\<in>set grids. \<not> ?R x (grids ! i)" "\<forall>j<i. ?R (grids ! i) (grids ! j)"
    unfolding g by blast
  have ri: "k (grids ! i) \<noteq> NaN" using nan i(1) by simp
  have "\<forall>x\<in>set grids. lessEqNumber (k (grids ! i)) (k x)"
    using i(3) nan ri lessEqNumber_iff by blast
  then show ?thesis using i red by auto
qed

lemma reduce_first_max:
  fixes k :: "'g \<Rightarrow> 'a::linorder number"
  assumes ne: "grids \<noteq> []" and nan: "\<forall>g\<in>set grids. k g \<noteq> NaN"
  shows "\<exists>i<length grids.
           reduce (\<lambda>best g. if greaterNumber (k g) (k best) then g else best) (first grids) grids
             = Some (grids ! i)
         \<and> (\<forall>g\<in>set grids. lessEqNumber (k g) (k (grids ! i)))
         \<and> (\<forall>j<i. greaterNumber (k (grids ! i)) (k (grids ! j)))"
proof -
  let ?R = "\<lambda>g best. greaterNumber (k g) (k best)"
  let ?f = "\<lambda>best g. if ?R g best then g else best"
  obtain b xs where g: "grids = b # xs" using ne by (cases grids) auto
  have red: "reduce ?f (first grids) grids = Some (foldl ?f b xs)"
    using reduce_first [of grids ?f] ne by (simp add: g)
  have "\<exists>i<length (b # xs). foldl ?f b xs = (b # xs) ! i
         \<and> (\<forall>x\<in>set (b # xs). \<not> ?R x ((b # xs) ! i))
         \<and> (\<forall>j<i. ?R ((b # xs) ! i) ((b # xs) ! j))"
  proof (rule foldl_first_best [where S = "set grids"])
    show "set (b # xs) \<subseteq> set grids" by (simp add: g)
  next
    fix x assume "x \<in> set grids"
    show "\<not> ?R x x" by (simp add: greaterNumber_def lessNumber_irrefl)
  next
    fix x y z assume "x \<in> set grids" "y \<in> set grids" "z \<in> set grids" "?R x y" "?R y z"
    then show "?R x z" unfolding greaterNumber_def using lessNumber_trans by blast
  next
    fix x y z assume "x \<in> set grids" "y \<in> set grids" "z \<in> set grids" "?R x y"
    then show "?R x z \<or> ?R z y"
      using nan lessNumber_cases [of "k z" "k y" "k x"] unfolding greaterNumber_def by blast
  qed
  then obtain i where i: "i < length grids" "foldl ?f b xs = grids ! i"
    "\<forall>x\<in>set grids. \<not> ?R x (grids ! i)" "\<forall>j<i. ?R (grids ! i) (grids ! j)"
    unfolding g by blast
  have ri: "k (grids ! i) \<noteq> NaN" using nan i(1) by simp
  have "\<forall>x\<in>set grids. lessEqNumber (k x) (k (grids ! i))"
    using i(3) nan ri lessEqNumber_iff unfolding greaterNumber_def by blast
  then show ?thesis using i red by auto
qed

lemma reduce_max_permuted:
  fixes k :: "'g \<Rightarrow> 'a::linorder number"
  assumes ne: "grids \<noteq> []" and nan: "\<forall>g\<in>set grids. k g \<noteq> NaN"
      and dist: "distinct (map k grids)" and perm: "mset grids' = mset grids"
  shows "reduce (\<lambda>best g. if greaterNumber (k g) (k best) then g else best) (first grids') grids'
       = reduce (\<lambda>best g. if greaterNumber (k g) (k best) then g else best) (first grids) grids"
proof -
  let ?f = "\<lambda>best g. if greaterNumber (k g) (k best) then g else best"
  have sets: "set grids' = set grids" using perm by (rule mset_eq_setD)
  then have ne': "grids' \<noteq> []" and nan': "\<forall>g\<in>set grids'. k g \<noteq> NaN" using ne nan by auto
  obtain i where i: "i < length grids" "reduce ?f (first grids) grids = Some (grids ! i)"
    "\<forall>g\<in>set grids. lessEqNumber (k g) (k (grids ! i))"
    using reduce_first_max [OF ne nan] by blast
  obtain j where j: "j < length grids'" "reduce ?f (first grids') grids' = Some (grids' ! j)"
    "\<forall>g\<in>set grids'. lessEqNumber (k g) (k (grids' ! j))"
    using reduce_first_max [OF ne' nan'] by blast
  have mi: "grids ! i \<in> set grids" using i(1) by simp
  have mj: "grids' ! j \<in> set grids" using j(1) sets by (metis nth_mem)
  have a: "lessEqNumber (k (grids' ! j)) (k (grids ! i))" using i(3) mj by blast
  have b: "lessEqNumber (k (grids ! i)) (k (grids' ! j))" using j(3) mi sets by blast
  have "k (grids ! i) = k (grids' ! j)"
    by (rule lessEqNumber_antisym [OF b a])
  moreover have "inj_on k (set grids)" using dist by (simp add: distinct_map)
  ultimately have "grids ! i = grids' ! j" using mi mj by (meson inj_onD)
  then show ?thesis using i(2) j(2) by simp
qed


section \<open>The strategies\<close>

lemma plainDecimal_samples:
  "plainDecimal (js ''0.30'') = Num (3 / 10)"
  "plainDecimal (js ''0.45'') = Num (9 / 20)"
  "plainDecimal (js ''0.55'') = Num (11 / 20)"
  "plainDecimal (js ''0.25'') = Num (1 / 4)"
  "plainDecimal (js ''0.42'') = Num (21 / 50)"
  "plainDecimal (js ''0.62'') = Num (31 / 50)"
  "plainDecimal (js ''0.5'') = Num (1 / 2)"
  "plainDecimal (js ''3.1'') = Num (31 / 10)"
  "plainDecimal (js ''2.1'') = Num (21 / 10)"
  "plainDecimal (js ''1.9'') = Num (19 / 10)"
  "plainDecimal (js ''3.0'') = Num 3"
  "plainDecimal (js ''2.5'') = Num (5 / 2)"
  "plainDecimal (js ''1.5'') = Num (3 / 2)"
  "plainDecimal (js ''5'') = Num 5"
  "plainDecimal (js ''abc'') = NaN"
  "plainDecimal (js []) = NaN"
  by (simp_all add: plainDecimal_def Let_def isWhiteSpace_def isDigit_def digitsValue_def
      digitValue_def js_def)

lemmas strategy_eval = exactDecimal_def sampleGrid_def plainDecimal_samples

text \<open>
  Claim C5, as the program has it. For a non-empty list of grids in which every
  implied probability parses to a number, so that no distance
  \<open>Math.abs(parseFloat(g.impliedProbability) - 0.5)\<close> is \<open>NaN\<close>, \<open>balanced\<close> returns a grid
  of the list whose distance is less than or equal to that of every grid of the list,
  and it is the first such grid: every grid before it in the list has a strictly
  greater distance.
\<close>

theorem balanced_first_closest:
  fixes fp :: "'a::linorder fpu"
  assumes "grids \<noteq> []"
      and "\<forall>g\<in>set grids.
             fp_abs fp (fp_minus fp (fp_parseFloat fp (impliedProbability g)) (fp_half fp)) \<noteq> NaN"
  shows "\<exists>i<length grids.
           balanced fp grids = Some (grids ! i)
         \<and> (\<forall>g\<in>set grids.
              lessEqNumber
                (fp_abs fp (fp_minus fp (fp_parseFloat fp (impliedProbability (grids ! i))) (fp_half fp)))
                (fp_abs fp (fp_minus fp (fp_parseFloat fp (impliedProbability g)) (fp_half fp))))
         \<and> (\<forall>j<i.
              lessNumber
                (fp_abs fp (fp_minus fp (fp_parseFloat fp (impliedProbability (grids ! i))) (fp_half fp)))
                (fp_abs fp (fp_minus fp (fp_parseFloat fp (impliedProbability (grids ! j))) (fp_half fp))))"
  using reduce_first_min
    [of grids "\<lambda>g. fp_abs fp (fp_minus fp (fp_parseFloat fp (impliedProbability g)) (fp_half fp))"]
    assms
  by (simp add: balanced_def Let_def)

text \<open>
  The theorem on the sample grids, in the exact decimal arithmetic: the distances are
  0.2, 0.05, 0.05 and 0.25, and the second grid, the first of the two at 0.05, is
  returned.
\<close>

theorem balanced_first_closest_witness:
  "sampleGrids \<noteq> []
 \<and> map (\<lambda>g. fp_abs exactDecimal
               (fp_minus exactDecimal (fp_parseFloat exactDecimal (impliedProbability g))
                  (fp_half exactDecimal))) sampleGrids
     = [Num (1 / 5), Num (1 / 20), Num (1 / 20), Num (1 / 4)]
 \<and> balanced exactDecimal sampleGrids = Some (sampleGrid ''BTC_1_1'' ''2.1'' ''0.45'')
 \<and> list_all (\<lambda>g. lessEqNumber (Num (1 / 20))
               (fp_abs exactDecimal
                  (fp_minus exactDecimal (fp_parseFloat exactDecimal (impliedProbability g))
                     (fp_half exactDecimal)))) sampleGrids"
proof -
  let ?k = "\<lambda>g. fp_abs exactDecimal
               (fp_minus exactDecimal (fp_parseFloat exactDecimal (impliedProbability g))
                  (fp_half exactDecimal))"
  have h1: "sampleGrids \<noteq> []" by (simp add: sampleGrids_def)
  have ks: "map ?k sampleGrids = [Num (1 / 5), Num (1 / 20), Num (1 / 20), Num (1 / 4)]"
    by (simp add: sampleGrids_def strategy_eval)
  have h2: "\<forall>g\<in>set sampleGrids. ?k g \<noteq> NaN"
    by (simp add: sampleGrids_def strategy_eval)
  have v: "balanced exactDecimal sampleGrids = Some (sampleGrid ''BTC_1_1'' ''2.1'' ''0.45'')"
    by (simp add: balanced_def reduce_def first_def sampleGrids_def Let_def strategy_eval)
  have kv: "?k (sampleGrid ''BTC_1_1'' ''2.1'' ''0.45'') = Num (1 / 20)"
    by (simp add: strategy_eval)
  from balanced_first_closest [OF h1 h2] v
  have "\<forall>g\<in>set sampleGrids. lessEqNumber (?k (sampleGrid ''BTC_1_1'' ''2.1'' ''0.45'')) (?k g)"
    by auto
  then have le: "\<forall>g\<in>set sampleGrids. lessEqNumber (Num (1 / 20)) (?k g)"
    by (simp only: kv)
  show ?thesis using h1 ks v le by (simp add: list_all_iff)
qed

text \<open>
  Claim C5 as it is written fails for a list with an implied probability that is no
  number: of the two grids with the implied probabilities \<open>''\<close> and \<open>0.5\<close>, \<open>balanced\<close>
  returns the first, whose distance is \<open>NaN\<close> and so not less than or equal to the
  distance 0 of the second (no comparison with \<open>NaN\<close> is true).
\<close>

theorem balanced_unparsable_counterexample:
  "[unparsableGrid, parsableGrid] \<noteq> []
 \<and> balanced exactDecimal [unparsableGrid, parsableGrid] = Some unparsableGrid
 \<and> fp_abs exactDecimal
      (fp_minus exactDecimal (fp_parseFloat exactDecimal (impliedProbability unparsableGrid))
         (fp_half exactDecimal)) = NaN
 \<and> fp_abs exactDecimal
      (fp_minus exactDecimal (fp_parseFloat exactDecimal (impliedProbability parsableGrid))
         (fp_half exactDecimal)) = Num 0
 \<and> \<not> lessEqNumber
        (fp_abs exactDecimal
           (fp_minus exactDecimal (fp_parseFloat exactDecimal (impliedProbability unparsableGrid))
              (fp_half exactDecimal)))
        (fp_abs exactDecimal
           (fp_minus exactDecimal (fp_parseFloat exactDecimal (impliedProbability parsableGrid))
              (fp_half exactDecimal)))"
  by (simp add: balanced_def reduce_def first_def Let_def unparsableGrid_def parsableGrid_def
      strategy_eval)

text \<open>
  Claim C6, as the program has it. For a non-empty list of grids whose keys are
  numbers (no key is \<open>NaN\<close>), \<open>underdog\<close>, with the key \<open>parseFloat(g.odds)\<close>, and
  \<open>value\<close>, with the key \<open>parseFloat(g.odds) * parseFloat(g.impliedProbability)\<close>, return
  the first grid of greatest key: no grid of the list has a greater key, and every
  grid before the returned one has a strictly smaller key. Where moreover the keys
  are distinct across the list, every permutation of the list gives the same result.
\<close>

theorem underdog_value_first_greatest:
  fixes fp :: "'a::linorder fpu"
  assumes "grids \<noteq> []"
  shows "((\<forall>g\<in>set grids. fp_parseFloat fp (odds g) \<noteq> NaN) \<longrightarrow>
            (\<exists>i<length grids.
               underdog fp grids = Some (grids ! i)
             \<and> (\<forall>g\<in>set grids.
                  lessEqNumber (fp_parseFloat fp (odds g)) (fp_parseFloat fp (odds (grids ! i))))
             \<and> (\<forall>j<i.
                  greaterNumber (fp_parseFloat fp (odds (grids ! i)))
                    (fp_parseFloat fp (odds (grids ! j)))))
          \<and> (distinct (map (\<lambda>g. fp_parseFloat fp (odds g)) grids) \<and> mset grids' = mset grids \<longrightarrow>
               underdog fp grids' = underdog fp grids))
       \<and> ((\<forall>g\<in>set grids.
              fp_times fp (fp_parseFloat fp (odds g)) (fp_parseFloat fp (impliedProbability g))
                \<noteq> NaN) \<longrightarrow>
            (\<exists>i<length grids.
               value_strategy fp grids = Some (grids ! i)
             \<and> (\<forall>g\<in>set grids.
                  lessEqNumber
                    (fp_times fp (fp_parseFloat fp (odds g))
                       (fp_parseFloat fp (impliedProbability g)))
                    (fp_times fp (fp_parseFloat fp (odds (grids ! i)))
                       (fp_parseFloat fp (impliedProbability (grids ! i)))))
             \<and> (\<forall>j<i.
                  greaterNumber
                    (fp_times fp (fp_parseFloat fp (odds (grids ! i)))
                       (fp_parseFloat fp (impliedProbability (grids ! i))))
                    (fp_times fp (fp_parseFloat fp (odds (grids ! j)))
                       (fp_parseFloat fp (impliedProbability (grids ! j))))))
          \<and> (distinct
                (map (\<lambda>g. fp_times fp (fp_parseFloat fp (odds g))
                             (fp_parseFloat fp (impliedProbability g))) grids)
              \<and> mset grids' = mset grids \<longrightarrow>
               value_strategy fp grids' = value_strategy fp grids))"
proof -
  let ?o = "\<lambda>g. fp_parseFloat fp (odds g)"
  let ?v = "\<lambda>g. fp_times fp (fp_parseFloat fp (odds g)) (fp_parseFloat fp (impliedProbability g))"
  have u1: "\<exists>i<length grids.
               underdog fp grids = Some (grids ! i)
             \<and> (\<forall>g\<in>set grids. lessEqNumber (?o g) (?o (grids ! i)))
             \<and> (\<forall>j<i. greaterNumber (?o (grids ! i)) (?o (grids ! j)))"
    if "\<forall>g\<in>set grids. ?o g \<noteq> NaN"
    using reduce_first_max [of grids ?o] assms that by (simp add: underdog_def)
  have u2: "underdog fp grids' = underdog fp grids"
    if "\<forall>g\<in>set grids. ?o g \<noteq> NaN" "distinct (map ?o grids)" "mset grids' = mset grids"
    using reduce_max_permuted [of grids ?o grids'] assms that by (simp add: underdog_def)
  have v1: "\<exists>i<length grids.
               value_strategy fp grids = Some (grids ! i)
             \<and> (\<forall>g\<in>set grids. lessEqNumber (?v g) (?v (grids ! i)))
             \<and> (\<forall>j<i. greaterNumber (?v (grids ! i)) (?v (grids ! j)))"
    if "\<forall>g\<in>set grids. ?v g \<noteq> NaN"
    using reduce_first_max [of grids ?v] assms that by (simp add: value_strategy_def Let_def)
  have v2: "value_strategy fp grids' = value_strategy fp grids"
    if "\<forall>g\<in>set grids. ?v g \<noteq> NaN" "distinct (map ?v grids)" "mset grids' = mset grids"
    using reduce_max_permuted [of grids ?v grids'] assms that
    by (simp add: value_strategy_def Let_def)
  show ?thesis using u1 u2 v1 v2 by blast
qed

text \<open>
  The theorem on three sample grids of distinct keys and a permutation of them: the
  odds are 3, 2.5 and 1.5 and \<open>underdog\<close> returns the first grid, the products are
  0.9, 1.05 and 0.93 and \<open>value\<close> returns the second, in either order of the list. On
  the four sample grids, where the first and the last tie at odds 3.1, \<open>underdog\<close>
  returns the first.
\<close>

theorem underdog_value_first_greatest_witness:
  "sampleThree \<noteq> []
 \<and> map (\<lambda>g. fp_parseFloat exactDecimal (odds g)) sampleThree = [Num 3, Num (5 / 2), Num (3 / 2)]
 \<and> map (\<lambda>g. fp_times exactDecimal (fp_parseFloat exactDecimal (odds g))
               (fp_parseFloat exactDecimal (impliedProbability g))) sampleThree
     = [Num (9 / 10), Num (21 / 20), Num (93 / 100)]
 \<and> mset sampleThreePermuted = mset sampleThree
 \<and> underdog exactDecimal sampleThreePermuted = underdog exactDecimal sampleThree
 \<and> value_strategy exactDecimal sampleThreePermuted = value_strategy exactDecimal sampleThree
 \<and> underdog exactDecimal sampleThree = Some (sampleGrid ''BTC_1_0'' ''3.0'' ''0.30'')
 \<and> value_strategy exactDecimal sampleThree = Some (sampleGrid ''BTC_1_1'' ''2.5'' ''0.42'')
 \<and> underdog exactDecimal sampleGrids = Some (sampleGrid ''BTC_1_0'' ''3.1'' ''0.30'')"
proof -
  let ?o = "\<lambda>g. fp_parseFloat exactDecimal (odds g)"
  let ?v = "\<lambda>g. fp_times exactDecimal (fp_parseFloat exactDecimal (odds g))
                   (fp_parseFloat exactDecimal (impliedProbability g))"
  have h1: "sampleThree \<noteq> []" by (simp add: sampleThree_def)
  have ko: "map ?o sampleThree = [Num 3, Num (5 / 2), Num (3 / 2)]"
    by (simp add: sampleThree_def strategy_eval)
  have kv: "map ?v sampleThree = [Num (9 / 10), Num (21 / 20), Num (93 / 100)]"
    by (simp add: sampleThree_def strategy_eval)
  have h2: "\<forall>g\<in>set sampleThree. ?o g \<noteq> NaN" by (simp add: sampleThree_def strategy_eval)
  have h3: "distinct (map ?o sampleThree)" by (simp add: ko)
  have h4: "\<forall>g\<in>set sampleThree. ?v g \<noteq> NaN" by (simp add: sampleThree_def strategy_eval)
  have h5: "distinct (map ?v sampleThree)" by (simp add: kv)
  have h6: "mset sampleThreePermuted = mset sampleThree"
    by (simp add: sampleThree_def sampleThreePermuted_def)
  have u: "underdog exactDecimal sampleThree = Some (sampleGrid ''BTC_1_0'' ''3.0'' ''0.30'')"
    by (simp add: underdog_def reduce_def first_def sampleThree_def greaterNumber_def
        strategy_eval)
  have v: "value_strategy exactDecimal sampleThree = Some (sampleGrid ''BTC_1_1'' ''2.5'' ''0.42'')"
    by (simp add: value_strategy_def reduce_def first_def sampleThree_def greaterNumber_def
        Let_def strategy_eval)
  have t: "underdog exactDecimal sampleGrids = Some (sampleGrid ''BTC_1_0'' ''3.1'' ''0.30'')"
    by (simp add: underdog_def reduce_def first_def sampleGrids_def greaterNumber_def
        strategy_eval)
  from underdog_value_first_greatest [OF h1, of exactDecimal sampleThreePermuted] h2 h3 h4 h5 h6
  have "underdog exactDecimal sampleThreePermuted = underdog exactDecimal sampleThree"
   and "value_strategy exactDecimal sampleThreePermuted = value_strategy exactDecimal sampleThree"
    by blast+
  then show ?thesis using h1 ko kv h6 u v t by simp
qed

text \<open>
  Claim C6 as it is written fails for a list with a key that is no number: the two
  grids with the odds \<open>abc\<close> and \<open>5\<close> have distinct keys, \<open>NaN\<close> and 5, and \<open>underdog\<close>
  returns the first grid of the list in either order (no comparison with \<open>NaN\<close> is
  true), so its result changes under the permutation.
\<close>

theorem underdog_unparsable_counterexample:
  "mset [parsableGrid, unparsableGrid] = mset [unparsableGrid, parsableGrid]
 \<and> map (\<lambda>g. fp_parseFloat exactDecimal (odds g)) [unparsableGrid, parsableGrid] = [NaN, Num 5]
 \<and> distinct (map (\<lambda>g. fp_parseFloat exactDecimal (odds g)) [unparsableGrid, parsableGrid])
 \<and> underdog exactDecimal [unparsableGrid, parsableGrid] = Some unparsableGrid
 \<and> underdog exactDecimal [parsableGrid, unparsableGrid] = Some parsableGrid
 \<and> unparsableGrid \<noteq> parsableGrid"
  by (simp add: underdog_def reduce_def first_def greaterNumber_def unparsableGrid_def
      parsableGrid_def strategy_eval) (simp add: js_def)

section \<open>validate\<close>

lemma runs_required: "digitRuns requiredMessage = [js ''20'', js ''95'', js ''28'', js ''97'']"
  by (simp add: digitRuns_def requiredMessage_def js_def isDigit_def MIN_LENGTH_def
      natToString.simps digitChar_def)

lemma runsFrom_digits:
  "\<forall>c\<in>set ds. isDigit c \<Longrightarrow> runsFrom cur (ds @ rest) = runsFrom (cur @ ds) rest"
  by (induction ds arbitrary: cur) auto

lemma runsFrom_plain:
  "\<forall>c\<in>set xs. \<not> isDigit c \<Longrightarrow> xs \<noteq> [] \<Longrightarrow>
   runsFrom cur (xs @ rest) = (if cur = [] then [] else [cur]) @ runsFrom [] rest"
proof (induction xs arbitrary: cur)
  case Nil
  then show ?case by simp
next
  case (Cons x xs)
  show ?case
  proof (cases "xs = []")
    case True
    then show ?thesis using Cons.prems by simp
  next
    case False
    then show ?thesis using Cons by simp
  qed
qed

lemma no_digits_js:
  "\<forall>c\<in>set (js ''Commentary too short (''). \<not> isDigit c"
  "\<forall>c\<in>set (js '' chars, min ''). \<not> isDigit c"
  "\<forall>c\<in>set (js ''). Add more detail about WHY.''). \<not> isDigit c"
  by (simp_all add: js_def isDigit_def)

lemma runs_tooShort: "digitRuns (tooShortMessage n) = [natToString n, natToString MIN_LENGTH]"
proof -
  have ne: "js ''Commentary too short ('' \<noteq> []" "js '' chars, min '' \<noteq> []"
    "js ''). Add more detail about WHY.'' \<noteq> []"
    by (simp_all add: js_def)
  have last: "\<And>cur. runsFrom cur (js ''). Add more detail about WHY.'')
                 = (if cur = [] then [] else [cur])"
    using runsFrom_plain [OF no_digits_js(3) ne(3), of _ "[]"] by simp
  show ?thesis
    unfolding digitRuns_def tooShortMessage_def
    by (simp add: runsFrom_plain [OF no_digits_js(1) ne(1)] runsFrom_plain [OF no_digits_js(2) ne(2)]
        last runsFrom_digits natToString_digits natToString_nonempty)
qed


lemma trim_empty: "trim [] = []"
  by (simp add: trim_def)

lemma validate_cases:
  "valid (validate c) = (MIN_LENGTH \<le> length (trim c))"
  "trim c = [] \<Longrightarrow> validate c = \<lparr>valid = False, error = Some requiredMessage\<rparr>"
  "trim c \<noteq> [] \<Longrightarrow> length (trim c) < MIN_LENGTH \<Longrightarrow>
     validate c = \<lparr>valid = False, error = Some (tooShortMessage (length (trim c)))\<rparr>"
  "MIN_LENGTH \<le> length (trim c) \<Longrightarrow> validate c = \<lparr>valid = True, error = None\<rparr>"
  by (auto simp: validate_def Let_def trim_empty MIN_LENGTH_def)

text \<open>
  Claim C7, as the program has it. \<open>validate\<close> returns valid exactly when the trimmed
  text has at least 20 code units, however long it is. For a trimmed text that is not
  empty and shorter than 20, the message includes the trimmed length and the minimum
  20. For an empty or white-space-only text the message is the other one, which
  includes the minimum 20.
\<close>

theorem validate_minimum_length:
  "valid (validate c) = (MIN_LENGTH \<le> length (trim c))
 \<and> (MIN_LENGTH \<le> length (trim c) \<longrightarrow> validate c = \<lparr>valid = True, error = None\<rparr>)
 \<and> (trim c \<noteq> [] \<and> length (trim c) < MIN_LENGTH \<longrightarrow>
       validate c = \<lparr>valid = False, error = Some (tooShortMessage (length (trim c)))\<rparr>
     \<and> mentionsNumber (tooShortMessage (length (trim c))) (length (trim c))
     \<and> mentionsNumber (tooShortMessage (length (trim c))) MIN_LENGTH)
 \<and> (trim c = [] \<longrightarrow>
       validate c = \<lparr>valid = False, error = Some requiredMessage\<rparr>
     \<and> mentionsNumber requiredMessage MIN_LENGTH)"
proof -
  have "mentionsNumber requiredMessage MIN_LENGTH"
    by (simp add: mentionsNumber_def runs_required MIN_LENGTH_def natToString.simps digitChar_def js_def)
  then show ?thesis
    using validate_cases [of c] by (simp add: mentionsNumber_def runs_tooShort)
qed

text \<open>The theorem at a text of trimmed length 7, at one of length 57, and at blanks.\<close>

theorem validate_minimum_length_witness:
  "trim (js ''  bullish  '') \<noteq> [] \<and> length (trim (js ''  bullish  '')) < MIN_LENGTH
 \<and> validate (js ''  bullish  '') = \<lparr>valid = False, error = Some (tooShortMessage 7)\<rparr>
 \<and> mentionsNumber (tooShortMessage 7) 7 \<and> mentionsNumber (tooShortMessage 7) 20
 \<and> tooShortMessage 7 = js ''Commentary too short (7 chars, min 20). Add more detail about WHY.''
 \<and> MIN_LENGTH \<le> length (trim (js ''BTC testing $95k support with RSI at 28, expecting bounce''))
 \<and> validate (js ''BTC testing $95k support with RSI at 28, expecting bounce'') = \<lparr>valid = True, error = None\<rparr>
 \<and> trim (js ''   '') = []
 \<and> validate (js ''   '') = \<lparr>valid = False, error = Some requiredMessage\<rparr>"
proof -
  have t1: "trim (js ''  bullish  '') = js ''bullish''"
    by (simp add: trim_def js_def isWhiteSpace_def)
  have t2: "trim (js ''BTC testing $95k support with RSI at 28, expecting bounce'')
              = js ''BTC testing $95k support with RSI at 28, expecting bounce''"
    by (simp add: trim_def js_def isWhiteSpace_def)
  have t3: "trim (js ''   '') = []"
    by (simp add: trim_def js_def isWhiteSpace_def)
  have l1: "length (js ''bullish'') = 7" by (simp add: js_def)
  have l2: "length (js ''BTC testing $95k support with RSI at 28, expecting bounce'') = 57"
    by (simp add: js_def)
  have m: "tooShortMessage 7 = js ''Commentary too short (7 chars, min 20). Add more detail about WHY.''"
    by (simp add: tooShortMessage_def js_def natToString.simps digitChar_def MIN_LENGTH_def)
  show ?thesis
    using validate_minimum_length [of "js ''  bullish  ''"]
      validate_minimum_length [of "js ''BTC testing $95k support with RSI at 28, expecting bounce''"]
      validate_minimum_length [of "js ''   ''"]
    by (simp add: t1 t2 t3 l1 l2 m MIN_LENGTH_def) (simp add: js_def)
qed

text \<open>
  Claim C7 as it is written fails for the empty and the white-space-only text: the
  trimmed length is 0, and the numbers of the message are 20, 95, 28 and 97.
\<close>

theorem validate_empty_counterexample:
  "trim (js ''   '') = []
 \<and> validate (js ''   '') = \<lparr>valid = False, error = Some requiredMessage\<rparr>
 \<and> digitRuns requiredMessage = [js ''20'', js ''95'', js ''28'', js ''97'']
 \<and> natToString (length (trim (js ''   ''))) = js ''0''
 \<and> \<not> mentionsNumber requiredMessage (length (trim (js ''   '')))"
proof -
  have t3: "trim (js ''   '') = []"
    by (simp add: trim_def js_def isWhiteSpace_def)
  have z: "natToString 0 = js ''0''" by (simp add: natToString.simps digitChar_def js_def)
  have "\<not> mentionsNumber requiredMessage 0"
    by (simp add: mentionsNumber_def runs_required z) (simp add: js_def)
  then show ?thesis
    using validate_cases(2) [OF t3] by (simp add: t3 runs_required z)
qed

section \<open>renderTemplate\<close>


















lemmas render_eval = renderTemplate_def replaceAll_def replaceFrom.simps getProp_def
  orQuestion_def js_def MAX_LENGTH_def




text \<open>
  Claim C10, as the program has it. A context value that is falsy (the empty string,
  the number 0, \<open>null\<close>, \<open>undefined\<close>) renders as the missing value does: its
  replacement text is \<open>?\<close>, and the rendering of every template is that of the context
  without the value.
\<close>

theorem renderTemplate_falsy_as_missing:
  assumes "\<not> truthy v"
  shows "renderTemplate t (ctx(k \<mapsto> v)) = renderTemplate t (ctx(k := None))
       \<and> orQuestion (getProp (ctx(k \<mapsto> v)) k) = js ''?''"
proof -
  have "orQuestion (getProp (ctx(k \<mapsto> v)) k') = orQuestion (getProp (ctx(k := None)) k')" for k'
    using assms by (simp add: getProp_def orQuestion_def)
  then show ?thesis
    using assms by (simp add: renderTemplate_def) (simp add: getProp_def orQuestion_def)
qed

text \<open>The theorem at the number 0, at the empty string and at \<open>null\<close>.\<close>

theorem renderTemplate_falsy_as_missing_witness:
  "\<not> truthy (JNum 0) \<and> \<not> truthy (JStr []) \<and> \<not> truthy JNull
 \<and> renderTemplate (js ''at {price}'') [''price'' \<mapsto> JNum 0] = js ''at ?''
 \<and> renderTemplate (js ''at {price}'') [''price'' \<mapsto> JStr []] = js ''at ?''
 \<and> renderTemplate (js ''at {price}'') [''price'' \<mapsto> JNull] = js ''at ?''
 \<and> renderTemplate (js ''at {price}'') Map.empty = js ''at ?''"
proof -
  have e: "renderTemplate (js ''at {price}'') Map.empty = js ''at ?''"
    by (simp add: render_eval)
  show ?thesis
    using renderTemplate_falsy_as_missing [of "JNum 0" "js ''at {price}''" Map.empty "''price''"]
      renderTemplate_falsy_as_missing [of "JStr []" "js ''at {price}''" Map.empty "''price''"]
      renderTemplate_falsy_as_missing [of JNull "js ''at {price}''" Map.empty "''price''"]
    by (simp add: e)
qed

text \<open>
  Claim C10 as it is written fails in its last part: a value that is truthy can
  expand to a zero and to the empty text. The string \<open>0\<close> renders as \<open>0\<close>, and the
  string \<open>$`\<close> (36, 96), the text before the match, renders as the empty text at the
  start of a template.
\<close>

theorem renderTemplate_zero_counterexample:
  "truthy (JStr (js ''0''))
 \<and> renderTemplate (js ''{odds}'') [''odds'' \<mapsto> JStr (js ''0'')] = js ''0''
 \<and> truthy (JStr [36, 96])
 \<and> renderTemplate (js ''{asset}'') [''asset'' \<mapsto> JStr [36, 96]] = []"
  by (simp add: render_eval)

section \<open>qualityScore\<close>











end
